theory Spec2Isabelle
  imports Complex_Main "HOL-Library.Word"
begin

section \<open>The proofing cabinet sketch (proofingbox.ino)\<close>

text \<open>
  A shallow embedding of the Arduino Leonardo sketch. The globals of the sketch are the
  fields of the record \<open>state\<close>, every function of the sketch is a function on that
  record, and what the sketch reads from the board during one pass of \<open>loop()\<close> is the
  record \<open>inputs\<close>. Every call on a peripheral (pins, LCD, sensors, buzzer) is appended
  to the field \<open>io\<close>, in program order.

  Number types: \<open>unsigned long\<close> is \<open>32 word\<close> (the AVR's width, arithmetic wraps);
  the 16-bit \<open>int\<close> sum of the potentiometer readings wraps through \<open>wrap16\<close>;
  \<open>float\<close> is modelled by \<open>real\<close>, that is exact arithmetic without rounding and
  without NaN.
\<close>

subsection \<open>Constants and data\<close>

text \<open>\<^verbatim>\<open>#define ON 0\<close>, \<^verbatim>\<open>#define OFF 1\<close>: the two levels written to the relays
  and stored in the status variables.\<close>

datatype relay = ON | OFF

definition MinTemp :: int where "MinTemp = 5"
definition MaxTemp :: int where "MaxTemp = 35"
definition WaterVolume :: int where "WaterVolume = 10"
definition PowerHeater :: int where "PowerHeater = 300"
definition MaxRunTime :: int where "MaxRunTime = 1440"

definition HEATER_PIN :: nat where "HEATER_PIN = 4"
definition PUMP_PIN :: nat where "PUMP_PIN = 6"
definition BEEP_PIN :: nat where "BEEP_PIN = 7"

text \<open>\<open>A0\<close> comes from the board's pin table (18 on the Leonardo); only its name matters
  here.\<close>

definition A0 :: nat where "A0 = 18"
definition POTMETER_PIN :: nat where "POTMETER_PIN = A0"

definition NumberOfMeasurements :: nat where "NumberOfMeasurements = 10"

text \<open>The calls on peripherals, as they appear in the sketch.\<close>

datatype event =
    SerialBegin nat
  | DhtBegin
  | PinModeOutput nat
  | DigitalWrite nat relay
  | SensorsBegin
  | LcdInit
  | LcdBacklight
  | LcdCreateChar nat "nat list"
  | LcdClear
  | LcdSetCursor nat nat
  | LcdPrint string
  | LcdPrintFloat real nat
  | LcdPrintNum "32 word"
  | LcdPrintChar char
  | LcdWrite nat
  | AnalogRead nat
  | RequestTemperatures
  | GetTempCByIndex nat
  | DhtReadTemperature
  | Tone nat nat nat
  | Delay nat

record state =
  TargetTemperature :: real
  HeaterStatus :: relay
  PumpStatus :: relay
  PreviousHeaterStatus :: relay
  MaxHeaterOnTime :: real
  RunTime :: "32 word"
  TimeHeaterOn :: "32 word"
  TimeLastSafetyCheck :: "32 word"
  Measurements :: "real list"
  SumMeasurements :: real
  AverageTemp :: real
  TempLastSafetyCheck :: real
  IntTemp :: int
  io :: "event list"

text \<open>The globals after the C++ static initialisation: the declared initialisers, zero
  everywhere else.\<close>

definition power_on :: state where
  "power_on =
     \<lparr> TargetTemperature = 0, HeaterStatus = OFF, PumpStatus = OFF,
       PreviousHeaterStatus = OFF, MaxHeaterOnTime = 0, RunTime = 0, TimeHeaterOn = 0,
       TimeLastSafetyCheck = 0, Measurements = replicate NumberOfMeasurements 0,
       SumMeasurements = 0, AverageTemp = 0, TempLastSafetyCheck = 0, IntTemp = 0,
       io = [] \<rparr>"

text \<open>What one pass of \<open>loop()\<close> reads from the board: the value of each \<open>millis()\<close>
  call by call site (line 209, line 226, line 228, and line 173 inside
  \<open>changeHeaterStatus\<close>, which runs at most once in a pass), the ten \<open>analogRead\<close>
  values, the liquid thermometer and the DHT thermometer.\<close>

record inputs =
  millis_loop :: "32 word"
  millis_check :: "32 word"
  millis_reset :: "32 word"
  millis_switch :: "32 word"
  analog :: "nat \<Rightarrow> int"
  liquid_temp :: real
  dht_temp :: real

text \<open>Where control is after a call: back in the caller (\<open>Running\<close>), or inside the
  endless loop of \<open>missionAbort(message)\<close> (\<open>Halted message\<close>).\<close>

datatype run = Running state | Halted string state

subsection \<open>C arithmetic\<close>

definition wrap16 :: "int \<Rightarrow> int" where
  "wrap16 x = (x + 32768) mod 65536 - 32768"

text \<open>Integer division of C: the quotient is truncated towards zero.\<close>

definition c_div :: "int \<Rightarrow> int \<Rightarrow> int" where
  "c_div a b = (if (a < 0) = (b < 0) then \<bar>a\<bar> div \<bar>b\<bar> else - (\<bar>a\<bar> div \<bar>b\<bar>))"

text \<open>Conversion of a \<open>float\<close> to \<open>int\<close>: the fraction is dropped.\<close>

definition float_to_int :: "real \<Rightarrow> int" where
  "float_to_int r = (if 0 \<le> r then \<lfloor>r\<rfloor> else \<lceil>r\<rceil>)"

text \<open>The Arduino core's \<^verbatim>\<open>long map(long x, long in_min, long in_max, long out_min, long out_max)\<close>,
  which returns \<^verbatim>\<open>(x - in_min) * (out_max - out_min) / (in_max - in_min) + out_min\<close>.
  Its argument here is a 16-bit value, so the 32-bit product cannot overflow.\<close>

definition map_long :: "int \<Rightarrow> int \<Rightarrow> int \<Rightarrow> int \<Rightarrow> int \<Rightarrow> int" where
  "map_long x in_min in_max out_min out_max =
     c_div ((x - in_min) * (out_max - out_min)) (in_max - in_min) + out_min"

subsection \<open>Temperature filter\<close>

text \<open>The loop \<^verbatim>\<open>for (i; i>0; i--) Measurements[i]=Measurements[i-1];\<close> started at \<open>i\<close>.\<close>

fun shift_right :: "nat \<Rightarrow> real list \<Rightarrow> real list" where
  "shift_right 0 ms = ms"
| "shift_right (Suc k) ms = shift_right k (ms[Suc k := ms ! k])"

definition getTemperature :: "real \<Rightarrow> state \<Rightarrow> state" where
  "getTemperature CurrentTemperature s =
     (let i = NumberOfMeasurements - 1;
          sum1 = SumMeasurements s - Measurements s ! i;
          ms = (shift_right i (Measurements s))[0 := CurrentTemperature];
          sum2 = sum1 + ms ! 0
      in s\<lparr> Measurements := ms, SumMeasurements := sum2,
             AverageTemp := sum2 / real NumberOfMeasurements,
             io := io s @ [RequestTemperatures, GetTempCByIndex 0] \<rparr>)"

subsection \<open>Actuators\<close>

definition changeHeaterStatus :: "relay \<Rightarrow> 32 word \<Rightarrow> state \<Rightarrow> state" where
  "changeHeaterStatus status now s =
     s\<lparr> HeaterStatus := status, TimeHeaterOn := now,
        io := io s @ [DigitalWrite HEATER_PIN status] \<rparr>"

definition changePumpStatus :: "relay \<Rightarrow> state \<Rightarrow> state" where
  "changePumpStatus status s =
     s\<lparr> PumpStatus := status, io := io s @ [DigitalWrite PUMP_PIN status] \<rparr>"

definition controlHeater :: "32 word \<Rightarrow> state \<Rightarrow> state" where
  "controlHeater now s =
     (if AverageTemp s + 0.25 < TargetTemperature s \<and> HeaterStatus s = OFF
      then changeHeaterStatus ON now s
      else if HeaterStatus s = ON \<and> AverageTemp s \<ge> TargetTemperature s
      then changeHeaterStatus OFF now s
      else s)"

subsection \<open>Setpoint reader\<close>

definition getTargetTemperature :: "(nat \<Rightarrow> int) \<Rightarrow> state \<Rightarrow> state" where
  "getTargetTemperature sensorValue s =
     (let sum_sensorValue = foldl (\<lambda>acc i. wrap16 (acc + sensorValue i)) 0 [0..<10];
          avg_sensorValue = c_div sum_sensorValue 10;
          tenths = map_long avg_sensorValue 0 1023 (MinTemp * 10) (MaxTemp * 10)
      in s\<lparr> TargetTemperature := real_of_int (c_div (tenths + 4) 5 * 5) / 10.0,
             io := io s @ replicate 10 (AnalogRead POTMETER_PIN) \<rparr>)"

subsection \<open>Display\<close>

definition updateLCD :: "state \<Rightarrow> state" where
  "updateLCD s =
     s\<lparr> io := io s @
        [LcdSetCursor 3 0, LcdPrintFloat (TargetTemperature s) 1,
         LcdSetCursor 3 1, LcdPrintFloat (AverageTemp s) 1,
         LcdSetCursor 12 0,
         (if HeaterStatus s = ON then LcdWrite 1 else LcdPrintChar CHR '' ''),
         (if PumpStatus s = ON then LcdWrite 0 else LcdPrintChar CHR '' ''),
         LcdSetCursor 9 1, LcdPrintNum (RunTime s), LcdPrint ''min''] \<rparr>"

subsection \<open>Shutdown\<close>

text \<open>\<open>missionAbort\<close> up to its endless loop; control stays in that loop, so the result is
  \<open>Halted\<close>. One turn of the loop, \<^verbatim>\<open>tone(7,2000,1000); delay(15000);\<close>, is \<open>alert\<close>.\<close>

definition missionAbort :: "string \<Rightarrow> 32 word \<Rightarrow> state \<Rightarrow> run" where
  "missionAbort message now s =
     (let s1 = changeHeaterStatus OFF now s;
          s2 = changePumpStatus OFF s1
      in Halted message
           (s2\<lparr> io := io s2 @
              [LcdClear, LcdSetCursor 0 0, LcdPrint ''System halted'',
               LcdSetCursor 0 1, LcdPrint message] \<rparr>))"

definition alert :: "state \<Rightarrow> state" where
  "alert s = s\<lparr> io := io s @ [Tone 7 2000 1000, Delay 15000] \<rparr>"

text \<open>The loop \<^verbatim>\<open>while(1 == 1){ tone(7,2000,1000); delay(15000); }\<close> itself: the state in
  which control leaves the loop, \<open>None\<close> if it never does.\<close>

partial_function (option) alert_forever :: "state \<Rightarrow> state option" where
  "alert_forever s = alert_forever (alert s)"

subsection \<open>Safety supervisor\<close>

definition getInternalTemp :: "real \<Rightarrow> state \<Rightarrow> state" where
  "getInternalTemp reading s =
     s\<lparr> IntTemp := float_to_int reading, io := io s @ [DhtReadTemperature] \<rparr>"

text \<open>Sequencing: the rest of a function runs only when the call before it returned.\<close>

fun and_then :: "run \<Rightarrow> (state \<Rightarrow> run) \<Rightarrow> run" where
  "and_then (Running s) f = f s"
| "and_then (Halted m s) f = Halted m s"

definition safetyCheck :: "inputs \<Rightarrow> state \<Rightarrow> run" where
  "safetyCheck inp s =
     (let TimeNow = millis_check inp in
      if TimeNow > TimeLastSafetyCheck s + 120000 then
        and_then
          (let s1 = s\<lparr> TimeLastSafetyCheck := millis_reset inp \<rparr> in
           if PreviousHeaterStatus s1 = HeaterStatus s1 \<and> HeaterStatus s1 = ON then
             and_then
               (if AverageTemp s1 \<le> TempLastSafetyCheck s1
                then missionAbort ''E1-no T increase'' (millis_switch inp) s1
                else Running (s1\<lparr> TempLastSafetyCheck := AverageTemp s1 \<rparr>))
               (\<lambda>s2. if real (unat (TimeNow - TimeHeaterOn s2)) > MaxHeaterOnTime s2
                     then missionAbort ''E2-heat time lim'' (millis_switch inp) s2
                     else Running s2)
           else if HeaterStatus s1 = ON then Running (s1\<lparr> PreviousHeaterStatus := ON \<rparr>)
           else if HeaterStatus s1 = OFF then Running (s1\<lparr> PreviousHeaterStatus := OFF \<rparr>)
           else Running s1)
          (\<lambda>s3.
             and_then
               (if uint (TimeNow div 1000 div 60) > MaxRunTime
                then missionAbort ''E4-timelim excee'' (millis_switch inp) s3
                else Running s3)
               (\<lambda>s4.
                  and_then
                    (if AverageTemp s4 > real_of_int MaxTemp
                     then missionAbort ''E3-temp too high'' (millis_switch inp) s4
                     else Running s4)
                    (\<lambda>s5.
                       let s6 = getInternalTemp (dht_temp inp) s5 in
                       if IntTemp s6 > 40
                       then missionAbort ''E5-int temp >40C'' (millis_switch inp) s6
                       else Running s6)))
      else Running s)"

subsection \<open>Start-up and the control loop\<close>

text \<open>\<open>initHeater\<close> takes \<open>NumberOfMeasurements\<close> readings, one second apart; the wait
  between two readings only polls the clock and writes no variable.\<close>

definition initHeater :: "(nat \<Rightarrow> real) \<Rightarrow> state \<Rightarrow> state" where
  "initHeater readings s =
     foldl (\<lambda>s' i. getTemperature (readings i) s')
       (s\<lparr> io := io s @ [LcdPrint ''Initializing...''] \<rparr>)
       [0..<NumberOfMeasurements]"

definition initScreen :: "state \<Rightarrow> state" where
  "initScreen s =
     s\<lparr> io := io s @
        [LcdInit, LcdBacklight,
         LcdCreateChar 0 [4, 14, 21, 4, 4, 4, 4, 4],
         LcdCreateChar 1 [0, 2, 17, 9, 10, 18, 17, 8],
         LcdClear] \<rparr>"

definition initDashboard :: "state \<Rightarrow> state" where
  "initDashboard s =
     s\<lparr> io := io s @
        [LcdClear, LcdSetCursor 0 0, LcdPrint ''Tt'', LcdSetCursor 0 1, LcdPrint ''Tc''] \<rparr>"

text \<open>\<open>setup()\<close>: \<open>readings i\<close> is the value read in turn \<open>i\<close> of the liquid thermometer, \<open>dht\<close> the
  value of the DHT thermometer.\<close>

definition setup_sketch :: "(nat \<Rightarrow> real) \<Rightarrow> real \<Rightarrow> state \<Rightarrow> state" where
  "setup_sketch readings dht s =
     (let s1 = s\<lparr> io := io s @
                 [SerialBegin 9600, DhtBegin, PinModeOutput 4, PinModeOutput 6,
                  DigitalWrite HEATER_PIN OFF, SensorsBegin] \<rparr>;
          s2 = s1\<lparr> MaxHeaterOnTime :=
                 real_of_int (MaxTemp * WaterVolume) * 4.1868 * 1000000
                   / real_of_int PowerHeater \<rparr>;
          s3 = initScreen s2;
          s4 = initHeater readings s3;
          s5 = s4\<lparr> TempLastSafetyCheck := AverageTemp s4 \<rparr>;
          s6 = initDashboard s5;
          s7 = s6\<lparr> PumpStatus := ON \<rparr>
      in getInternalTemp dht s7)"

definition loop :: "inputs \<Rightarrow> state \<Rightarrow> run" where
  "loop inp s =
     (let TimeNow = millis_loop inp;
          s1 = s\<lparr> RunTime := TimeNow div 1000 div 60 \<rparr>
      in and_then (safetyCheck inp s1)
           (\<lambda>s2. let s3 = getTargetTemperature (analog inp) s2;
                     s4 = getTemperature (liquid_temp inp) s3;
                     s5 = controlHeater (millis_switch inp) s4
                 in Running (updateLCD s5)))"

text \<open>The whole machine: a step is one pass of \<open>loop()\<close> while the sketch runs, and one
  turn of the endless loop of \<open>missionAbort\<close> once it has halted.\<close>

fun step :: "inputs \<Rightarrow> run \<Rightarrow> run" where
  "step inp (Running s) = loop inp s"
| "step inp (Halted m s) = Halted m (alert s)"

fun run_steps :: "inputs list \<Rightarrow> run \<Rightarrow> run" where
  "run_steps [] r = r"
| "run_steps (inp # inps) r = run_steps inps (step inp r)"

text \<open>The level a pin was last driven to by \<open>digitalWrite\<close>, if any.\<close>

fun pin_level :: "nat \<Rightarrow> event list \<Rightarrow> relay option" where
  "pin_level p [] = None"
| "pin_level p (e # es) =
     (case pin_level p es of
        Some l \<Rightarrow> Some l
      | None \<Rightarrow> (case e of DigitalWrite q l \<Rightarrow> if q = p then Some l else None | _ \<Rightarrow> None))"

text \<open>The globals a result carries, and the message of the fault, if one was raised.\<close>

fun state_of :: "run \<Rightarrow> state" where
  "state_of (Running s) = s"
| "state_of (Halted m s) = s"

fun fault_of :: "run \<Rightarrow> string option" where
  "fault_of (Running s) = None"
| "fault_of (Halted m s) = Some m"

text \<open>What the shutdown procedure leaves behind: both status variables OFF, its seven
  peripheral calls last in the log, and OFF the last level written to either relay.\<close>

definition halted_by :: "string \<Rightarrow> state \<Rightarrow> bool" where
  "halted_by m h \<longleftrightarrow>
     HeaterStatus h = OFF \<and> PumpStatus h = OFF
     \<and> drop (length (io h) - 7) (io h)
         = [DigitalWrite HEATER_PIN OFF, DigitalWrite PUMP_PIN OFF, LcdClear,
            LcdSetCursor 0 0, LcdPrint ''System halted'', LcdSetCursor 0 1, LcdPrint m]
     \<and> pin_level HEATER_PIN (io h) = Some OFF \<and> pin_level PUMP_PIN (io h) = Some OFF"

text \<open>A pass in the order the specification gives (setpoint, temperature, safety check,
  heater control, status), to compare with \<open>loop\<close>; it is not part of the sketch.\<close>

definition loop_spec_order :: "inputs \<Rightarrow> state \<Rightarrow> run" where
  "loop_spec_order inp s =
     (let TimeNow = millis_loop inp;
          s1 = s\<lparr> RunTime := TimeNow div 1000 div 60 \<rparr>;
          s2 = getTargetTemperature (analog inp) s1;
          s3 = getTemperature (liquid_temp inp) s2
      in and_then (safetyCheck inp s3)
           (\<lambda>s4. Running (updateLCD (controlHeater (millis_switch inp) s4))))"

text \<open>An input for the examples: a pass of \<open>loop()\<close> that starts at clock value \<open>t\<close> and
  is short enough for each of its \<open>millis()\<close> calls to return \<open>t\<close>, with every
  potentiometer reading equal to \<open>pot\<close>, the liquid thermometer reading \<open>r\<close> and the DHT
  thermometer reading 22.\<close>

definition pass :: "32 word \<Rightarrow> int \<Rightarrow> real \<Rightarrow> inputs" where
  "pass t pot r =
     \<lparr> millis_loop = t, millis_check = t, millis_reset = t, millis_switch = t,
       analog = (\<lambda>i. pot), liquid_temp = r, dht_temp = 22 \<rparr>"

subsection \<open>Runs of the temperature filter\<close>

text \<open>A sequence of raw samples, each taken by one call of \<open>getTemperature\<close>, oldest
  first.\<close>

fun feed :: "real list \<Rightarrow> state \<Rightarrow> state" where
  "feed [] s = s"
| "feed (r # rs) s = feed rs (getTemperature r s)"

text \<open>The window invariant: the array holds \<open>NumberOfMeasurements\<close> values and the running
  sum is their sum.\<close>

definition window_ok :: "state \<Rightarrow> bool" where
  "window_ok s \<longleftrightarrow> length (Measurements s) = NumberOfMeasurements \<and> SumMeasurements s = sum_list (Measurements s)"

section \<open>Properties\<close>

subsection \<open>Temperature filter\<close>

lemma shift_right_eq:
  "k < length ms \<Longrightarrow> shift_right k ms = hd ms # take k ms @ drop (Suc k) ms"
proof (induction k arbitrary: ms)
  case 0
  then show ?case by (cases ms) auto
next
  case (Suc k)
  then have "shift_right (Suc k) ms = hd (ms[Suc k := ms ! k]) # take k (ms[Suc k := ms ! k]) @ drop (Suc k) (ms[Suc k := ms ! k])"
    by simp
  also have "\<dots> = hd ms # take (Suc k) ms @ drop (Suc (Suc k)) ms"
    using Suc.prems by (cases ms) (auto simp: take_Suc_conv_app_nth drop_update_swap Cons_nth_drop_Suc[symmetric] nth_Cons split: nat.splits)
  finally show ?case .
qed

lemma window_step:
  assumes "length ms = Suc n"
  shows "(shift_right n ms)[0 := r] = r # butlast ms"
  using assms by (simp add: shift_right_eq butlast_conv_take)

lemma sum_list_butlast:
  "ms \<noteq> [] \<Longrightarrow> sum_list (butlast ms) = sum_list ms - (last ms :: real)"
  by (induction ms) auto

lemma getTemperature_window:
  assumes "length (Measurements s) = NumberOfMeasurements"
  shows "Measurements (getTemperature r s) = r # butlast (Measurements s)"
    and "SumMeasurements (getTemperature r s) = SumMeasurements s - last (Measurements s) + r"
    and "AverageTemp (getTemperature r s) = SumMeasurements (getTemperature r s) / 10"
proof -
  have len: "length (Measurements s) = Suc 9"
    using assms by (simp add: NumberOfMeasurements_def)
  then have ne: "Measurements s \<noteq> []" by auto
  show "Measurements (getTemperature r s) = r # butlast (Measurements s)"
    using window_step[OF len] by (simp add: getTemperature_def NumberOfMeasurements_def Let_def)
  have "last (Measurements s) = Measurements s ! 9"
    using len ne by (simp add: last_conv_nth)
  then show "SumMeasurements (getTemperature r s) = SumMeasurements s - last (Measurements s) + r"
    using window_step[OF len] by (simp add: getTemperature_def NumberOfMeasurements_def Let_def)
  show "AverageTemp (getTemperature r s) = SumMeasurements (getTemperature r s) / 10"
    by (simp add: getTemperature_def NumberOfMeasurements_def Let_def)
qed

lemma getTemperature_window_ok:
  assumes "window_ok s"
  shows "window_ok (getTemperature r s)"
proof -
  have len: "length (Measurements s) = NumberOfMeasurements" and sum: "SumMeasurements s = sum_list (Measurements s)"
    using assms by (simp_all add: window_ok_def)
  have ne: "Measurements s \<noteq> []" using len by (auto simp: NumberOfMeasurements_def)
  show ?thesis
    using len sum ne by (simp add: window_ok_def getTemperature_window[OF len] sum_list_butlast NumberOfMeasurements_def)
qed

lemma feed_window:
  "window_ok s \<Longrightarrow> window_ok (feed rs s) \<and> Measurements (feed rs s) = take NumberOfMeasurements (rev rs @ Measurements s)"
proof (induction rs arbitrary: s)
  case Nil
  then show ?case by (simp add: window_ok_def)
next
  case (Cons r rs)
  have len: "length (Measurements s) = NumberOfMeasurements"
    using Cons.prems by (simp add: window_ok_def)
  have ok: "window_ok (getTemperature r s)"
    by (rule getTemperature_window_ok[OF Cons.prems])
  have "take NumberOfMeasurements (rev rs @ r # butlast (Measurements s)) = take NumberOfMeasurements (rev rs @ r # Measurements s)"
    using len by (cases "10 - length rs") (simp_all add: butlast_conv_take NumberOfMeasurements_def min_def)
  then show ?case
    using Cons.IH[OF ok] by (simp add: getTemperature_window(1)[OF len])
qed




text \<open>The filter and the start-up sequence in closed form, for evaluating runs.\<close>

lemma getTemperature_explicit:
  assumes "length (Measurements s) = 10"
  shows "getTemperature r s =
           s\<lparr> Measurements := r # butlast (Measurements s),
              SumMeasurements := SumMeasurements s - last (Measurements s) + r,
              AverageTemp := (SumMeasurements s - last (Measurements s) + r) / 10,
              io := io s @ [RequestTemperatures, GetTempCByIndex 0] \<rparr>"
proof -
  have len: "length (Measurements s) = Suc 9" using assms by simp
  have ne: "Measurements s \<noteq> []" using assms by auto
  have l: "Measurements s ! 9 = last (Measurements s)"
    by (simp add: last_conv_nth[OF ne] assms)
  show ?thesis
    by (simp add: getTemperature_def NumberOfMeasurements_def Let_def window_step[OF len] l)
qed

lemma concat_replicate_pair:
  "concat (replicate n [a, b]) @ [a, b] = a # b # concat (replicate n [a, b])"
  by (induction n) simp_all

lemma replicate_10: "replicate 10 x = [x, x, x, x, x, x, x, x, x, x]"
  by (simp add: numeral_eq_Suc)

lemma feed_append: "feed (rs @ [r]) s = getTemperature r (feed rs s)"
  by (induction rs arbitrary: s) simp_all

lemma feed_explicit:
  assumes "window_ok s"
  shows "feed (rs @ [r]) s =
           s\<lparr> Measurements := take 10 (r # rev rs @ Measurements s),
              SumMeasurements := sum_list (take 10 (r # rev rs @ Measurements s)),
              AverageTemp := sum_list (take 10 (r # rev rs @ Measurements s)) / 10,
              io := io s @ concat (replicate (Suc (length rs)) [RequestTemperatures, GetTempCByIndex 0]) \<rparr>"
proof (induction rs arbitrary: r rule: rev_induct)
  case Nil
  have len: "length (Measurements s) = 10" and sum: "SumMeasurements s = sum_list (Measurements s)"
    using assms by (simp_all add: window_ok_def NumberOfMeasurements_def)
  have ne: "Measurements s \<noteq> []" using len by auto
  have b: "take 9 (Measurements s) = butlast (Measurements s)"
    using len by (simp add: butlast_conv_take)
  show ?case
    using ne by (simp add: getTemperature_explicit[OF len] sum b sum_list_butlast)
next
  case (snoc x xs)
  let ?t = "feed (xs @ [x]) s"
  have ok: "window_ok ?t" using feed_window[OF assms] by blast
  have len: "length (Measurements ?t) = 10" and sum: "SumMeasurements ?t = sum_list (Measurements ?t)"
    using ok by (simp_all add: window_ok_def NumberOfMeasurements_def)
  have ne: "Measurements ?t \<noteq> []" using len by auto
  have m: "Measurements ?t = take 10 (x # rev xs @ Measurements s)"
    using feed_window[OF assms, of "xs @ [x]"] by (simp add: NumberOfMeasurements_def)
  have b: "r # butlast (Measurements ?t) = take 10 (r # x # rev xs @ Measurements s)"
    using len unfolding m by (simp add: butlast_conv_take min_def)
  have c: "SumMeasurements ?t - last (Measurements ?t) + r = sum_list (r # butlast (Measurements ?t))"
    using ne by (simp add: sum sum_list_butlast)
  have "feed ((xs @ [x]) @ [r]) s = getTemperature r ?t"
    by (rule feed_append)
  also have "\<dots> = ?t\<lparr> Measurements := r # butlast (Measurements ?t),
              SumMeasurements := sum_list (r # butlast (Measurements ?t)),
              AverageTemp := sum_list (r # butlast (Measurements ?t)) / 10,
              io := io ?t @ [RequestTemperatures, GetTempCByIndex 0] \<rparr>"
    unfolding getTemperature_explicit[OF len] c ..
  also have "\<dots> = s\<lparr> Measurements := take 10 (r # rev (xs @ [x]) @ Measurements s),
              SumMeasurements := sum_list (take 10 (r # rev (xs @ [x]) @ Measurements s)),
              AverageTemp := sum_list (take 10 (r # rev (xs @ [x]) @ Measurements s)) / 10,
              io := io s @ concat (replicate (Suc (length (xs @ [x]))) [RequestTemperatures, GetTempCByIndex 0]) \<rparr>"
    unfolding b by (simp add: snoc.IH concat_replicate_pair)
  finally show ?case .
qed

lemma initHeater_feed:
  "foldl (\<lambda>s' i. getTemperature (rd i) s') s xs = feed (map rd xs) s"
  by (induction xs arbitrary: s) simp_all

lemma setup_sketch_power_on:
  "setup_sketch rd dht power_on =
     \<lparr> TargetTemperature = 0, HeaterStatus = OFF, PumpStatus = ON,
       PreviousHeaterStatus = OFF, MaxHeaterOnTime = 4884600, RunTime = 0, TimeHeaterOn = 0,
       TimeLastSafetyCheck = 0,
       Measurements = [rd 9, rd 8, rd 7, rd 6, rd 5, rd 4, rd 3, rd 2, rd 1, rd 0],
       SumMeasurements = sum_list [rd 9, rd 8, rd 7, rd 6, rd 5, rd 4, rd 3, rd 2, rd 1, rd 0],
       AverageTemp = sum_list [rd 9, rd 8, rd 7, rd 6, rd 5, rd 4, rd 3, rd 2, rd 1, rd 0] / 10,
       TempLastSafetyCheck = sum_list [rd 9, rd 8, rd 7, rd 6, rd 5, rd 4, rd 3, rd 2, rd 1, rd 0] / 10,
       IntTemp = float_to_int dht,
       io = [SerialBegin 9600, DhtBegin, PinModeOutput 4, PinModeOutput 6,
             DigitalWrite HEATER_PIN OFF, SensorsBegin, LcdInit, LcdBacklight,
             LcdCreateChar 0 [4, 14, 21, 4, 4, 4, 4, 4],
             LcdCreateChar 1 [0, 2, 17, 9, 10, 18, 17, 8], LcdClear,
             LcdPrint ''Initializing...''] @
            concat (replicate 10 [RequestTemperatures, GetTempCByIndex 0]) @
            [LcdClear, LcdSetCursor 0 0, LcdPrint ''Tt'', LcdSetCursor 0 1, LcdPrint ''Tc'',
             DhtReadTemperature] \<rparr>"
proof -
  let ?s3 = "initScreen (power_on\<lparr> io := io power_on @
                 [SerialBegin 9600, DhtBegin, PinModeOutput 4, PinModeOutput 6,
                  DigitalWrite HEATER_PIN OFF, SensorsBegin],
               MaxHeaterOnTime := real_of_int (MaxTemp * WaterVolume) * 4.1868 * 1000000
                   / real_of_int PowerHeater \<rparr>)"
  let ?g = "?s3\<lparr> io := io ?s3 @ [LcdPrint ''Initializing...''] \<rparr>"
  have ok: "window_ok ?g"
    by (simp add: window_ok_def initScreen_def power_on_def sum_list_replicate)
  have u: "[0..<10] = [0, 1, 2, 3, 4, 5, 6, 7, 8, 9::nat]"
    by code_simp
  have up: "map rd [0..<NumberOfMeasurements] = map rd [0, 1, 2, 3, 4, 5, 6, 7, 8] @ [rd 9]"
    by (simp add: NumberOfMeasurements_def u)
  have rv: "rev (map rd [0, 1, 2, 3, 4, 5, 6, 7, 8]) = [rd 8, rd 7, rd 6, rd 5, rd 4, rd 3, rd 2, rd 1, rd 0]"
    by simp
  have h: "initHeater rd ?s3 = ?g\<lparr> Measurements := [rd 9, rd 8, rd 7, rd 6, rd 5, rd 4, rd 3, rd 2, rd 1, rd 0],
              SumMeasurements := sum_list [rd 9, rd 8, rd 7, rd 6, rd 5, rd 4, rd 3, rd 2, rd 1, rd 0],
              AverageTemp := sum_list [rd 9, rd 8, rd 7, rd 6, rd 5, rd 4, rd 3, rd 2, rd 1, rd 0] / 10,
              io := io ?g @ concat (replicate 10 [RequestTemperatures, GetTempCByIndex 0]) \<rparr>"
    unfolding initHeater_def initHeater_feed up feed_explicit[OF ok] rv by (simp add: replicate_10)
  show ?thesis
    unfolding setup_sketch_def Let_def h
    by (simp add: initScreen_def initDashboard_def getInternalTemp_def power_on_def
        MaxTemp_def WaterVolume_def PowerHeater_def replicate_10)
qed

subsection \<open>Heater controller\<close>

text \<open>
  Claim C4. The heater goes from OFF to ON exactly when it is OFF and
  \<open>AverageTemp + 0.25 < TargetTemperature\<close>, and from ON to OFF exactly when it is ON and
  \<open>AverageTemp \<ge> TargetTemperature\<close>. A change of state is one call of
  \<open>changeHeaterStatus\<close> (relay write and time stamp); without a change nothing is
  written. At 0.3 below the target an OFF heater turns ON, at 0.2 below it stays OFF.
\<close>

theorem controlHeater_hysteresis:
  "((HeaterStatus s = OFF \<and> HeaterStatus (controlHeater now s) = ON)
      \<longleftrightarrow> (HeaterStatus s = OFF \<and> AverageTemp s + 0.25 < TargetTemperature s))
   \<and> ((HeaterStatus s = ON \<and> HeaterStatus (controlHeater now s) = OFF)
      \<longleftrightarrow> (HeaterStatus s = ON \<and> TargetTemperature s \<le> AverageTemp s))
   \<and> (HeaterStatus (controlHeater now s) \<noteq> HeaterStatus s
      \<longrightarrow> controlHeater now s = changeHeaterStatus (HeaterStatus (controlHeater now s)) now s)
   \<and> (HeaterStatus (controlHeater now s) = HeaterStatus s \<longrightarrow> controlHeater now s = s)
   \<and> (HeaterStatus s = OFF \<and> AverageTemp s = TargetTemperature s - 0.3
      \<longrightarrow> HeaterStatus (controlHeater now s) = ON)
   \<and> (HeaterStatus s = OFF \<and> AverageTemp s = TargetTemperature s - 0.2
      \<longrightarrow> HeaterStatus (controlHeater now s) = OFF)"
  by (cases "HeaterStatus s") (simp_all add: controlHeater_def changeHeaterStatus_def)

theorem controlHeater_hysteresis_witness:
  "HeaterStatus (controlHeater 5000 (power_on\<lparr>TargetTemperature := 25, AverageTemp := 24.7\<rparr>)) = ON
   \<and> HeaterStatus (controlHeater 5000 (power_on\<lparr>TargetTemperature := 25, AverageTemp := 24.8\<rparr>)) = OFF"
proof -
  let ?cool = "power_on\<lparr>TargetTemperature := 25, AverageTemp := 24.7\<rparr>"
  let ?warm = "power_on\<lparr>TargetTemperature := 25, AverageTemp := 24.8\<rparr>"
  have cool: "HeaterStatus ?cool = OFF \<and> AverageTemp ?cool = TargetTemperature ?cool - 0.3"
    by (simp add: power_on_def)
  have warm: "HeaterStatus ?warm = OFF \<and> AverageTemp ?warm = TargetTemperature ?warm - 0.2"
    by (simp add: power_on_def)
  show ?thesis
    using cool warm controlHeater_hysteresis[of ?cool 5000] controlHeater_hysteresis[of ?warm 5000]
    by blast
qed

subsection \<open>Setpoint reader\<close>

lemma wrap16_id: "- 32768 \<le> x \<Longrightarrow> x < 32768 \<Longrightarrow> wrap16 x = x"
  by (simp add: wrap16_def)

lemma c_div_nonneg: "0 \<le> a \<Longrightarrow> 0 < b \<Longrightarrow> c_div a b = a div b"
  by (simp add: c_div_def)

lemma sum_readings:
  assumes "\<forall>i<n. 0 \<le> rd i \<and> rd i \<le> 1023" and "n \<le> 32"
  shows "foldl (\<lambda>acc i. wrap16 (acc + rd i)) 0 [0..<n] = (\<Sum>i<n. rd i)
       \<and> 0 \<le> (\<Sum>i<n. rd i) \<and> (\<Sum>i<n. rd i) \<le> 1023 * int n"
  using assms
proof (induction n)
  case 0
  then show ?case by simp
next
  case (Suc n)
  then have ih: "foldl (\<lambda>acc i. wrap16 (acc + rd i)) 0 [0..<n] = (\<Sum>i<n. rd i)"
    "0 \<le> (\<Sum>i<n. rd i)" "(\<Sum>i<n. rd i) \<le> 1023 * int n"
    by simp_all
  have r: "0 \<le> rd n" "rd n \<le> 1023" using Suc.prems by simp_all
  have "n \<le> 31" using Suc.prems by simp
  then have "(\<Sum>i<n. rd i) + rd n < 32768" using ih r by linarith
  then show ?case using ih r by (simp add: wrap16_id)
qed

lemma getTargetTemperature_value:
  assumes "\<forall>i<10. 0 \<le> rd i \<and> rd i \<le> 1023"
  defines "tenths \<equiv> MinTemp * 10 + (\<Sum>i<10. rd i) div 10 * (MaxTemp * 10 - MinTemp * 10) div 1023"
  shows "TargetTemperature (getTargetTemperature rd s) = real_of_int (5 * ((tenths + 4) div 5)) / 10"
    and "50 \<le> tenths" and "tenths \<le> 350"
proof -
  define S where "S = (\<Sum>i<10. rd i)"
  define avg where "avg = S div 10"
  have s: "foldl (\<lambda>acc i. wrap16 (acc + rd i)) 0 [0..<10] = (\<Sum>i<10. rd i)
       \<and> 0 \<le> (\<Sum>i<10. rd i) \<and> (\<Sum>i<10. rd i) \<le> 1023 * int 10"
    by (rule sum_readings) (use assms in simp_all)
  have f: "foldl (\<lambda>acc i. wrap16 (acc + rd i)) 0 [0..<10] = S"
    using s by (simp add: S_def)
  have S: "0 \<le> S" "S \<le> 10230" using s by (simp_all add: S_def)
  have avg: "0 \<le> avg" "avg \<le> 1023" using S unfolding avg_def by linarith+
  have a: "c_div S 10 = avg"
    using S(1) by (simp add: c_div_nonneg avg_def)
  have p: "0 \<le> avg * (MaxTemp * 10 - MinTemp * 10)"
    using avg by (simp add: MinTemp_def MaxTemp_def)
  have "c_div (avg * (MaxTemp * 10 - MinTemp * 10)) 1023 = avg * (MaxTemp * 10 - MinTemp * 10) div 1023"
    by (rule c_div_nonneg[OF p]) simp
  then have m: "map_long avg 0 1023 (MinTemp * 10) (MaxTemp * 10) = tenths"
    unfolding map_long_def tenths_def by (simp add: avg_def S_def)
  have q: "0 \<le> avg * 300 div 1023" "avg * 300 div 1023 \<le> 300"
    using avg by (simp_all add: pos_imp_zdiv_nonneg_iff)
  have t_eq: "tenths = 50 + avg * 300 div 1023"
    by (simp add: tenths_def avg_def S_def MinTemp_def MaxTemp_def)
  show lo: "50 \<le> tenths" and hi: "tenths \<le> 350"
    using q unfolding t_eq by linarith+
  have c: "c_div (tenths + 4) 5 = (tenths + 4) div 5"
    using lo by (simp add: c_div_nonneg)
  show "TargetTemperature (getTargetTemperature rd s) = real_of_int (5 * ((tenths + 4) div 5)) / 10"
    unfolding getTargetTemperature_def Let_def f a m c by (simp add: mult.commute)
qed

text \<open>
  Claim C8, as amended. For ten readings in 0..1023, taken by ten \<open>analogRead\<close> calls,
  the setpoint reader takes their integer average, rescales it with \<open>map\<close> from 0..1023 to
  \<open>MinTemp * 10 .. MaxTemp * 10\<close> (tenths of a degree, quotient truncated), and rounds
  the tenths up to the next multiple of five: the result is the least half-degree that
  is not below the rescaled value, and it lies between \<open>MinTemp\<close> and \<open>MaxTemp\<close>.
\<close>

theorem getTargetTemperature_rounds_up:
  assumes "\<forall>i<10. 0 \<le> rd i \<and> rd i \<le> 1023"
  shows "let avg = (\<Sum>i<10. rd i) div 10;
             tenths = MinTemp * 10 + avg * (MaxTemp * 10 - MinTemp * 10) div 1023;
             target = TargetTemperature (getTargetTemperature rd s)
         in target = real_of_int (5 * ((tenths + 4) div 5)) / 10
          \<and> tenths \<le> 5 * ((tenths + 4) div 5) \<and> 5 * ((tenths + 4) div 5) < tenths + 5
          \<and> real_of_int MinTemp \<le> target \<and> target \<le> real_of_int MaxTemp
          \<and> io (getTargetTemperature rd s) = io s @ replicate 10 (AnalogRead POTMETER_PIN)"
proof -
  define tenths where
    "tenths = MinTemp * 10 + (\<Sum>i<10. rd i) div 10 * (MaxTemp * 10 - MinTemp * 10) div 1023"
  note v = getTargetTemperature_value[OF assms, folded tenths_def]
  have k: "tenths \<le> 5 * ((tenths + 4) div 5)" "5 * ((tenths + 4) div 5) < tenths + 5"
    by presburger+
  have k2: "50 \<le> 5 * ((tenths + 4) div 5)" "5 * ((tenths + 4) div 5) \<le> 350"
    using v(2,3) by presburger+
  have lo: "real_of_int MinTemp \<le> TargetTemperature (getTargetTemperature rd s)"
    unfolding v(1) MinTemp_def using k2(1) by simp
  have hi: "TargetTemperature (getTargetTemperature rd s) \<le> real_of_int MaxTemp"
    unfolding v(1) MaxTemp_def using k2(2) by simp
  have rd10: "io (getTargetTemperature rd s) = io s @ replicate 10 (AnalogRead POTMETER_PIN)"
    by (simp add: getTargetTemperature_def Let_def)
  show ?thesis
    unfolding Let_def tenths_def[symmetric] using v(1) k lo hi rd10 by blast
qed

theorem getTargetTemperature_rounds_up_witness:
  "TargetTemperature (getTargetTemperature (\<lambda>i. 4) power_on) = 5.5"
proof -
  have h: "\<forall>i<10. 0 \<le> (\<lambda>i::nat. 4::int) i \<and> (\<lambda>i::nat. 4::int) i \<le> 1023" by simp
  show ?thesis
    using getTargetTemperature_rounds_up[OF h, of power_on]
    by (simp add: Let_def MinTemp_def MaxTemp_def)
qed

text \<open>
  Claim C8 as stated fails: ten readings of 4 rescale to 51 tenths (5.1 degrees), whose
  nearest half-degree is 5.0; the sketch returns 5.5.
\<close>

theorem getTargetTemperature_nearest_counterexample:
  "map_long (c_div (foldl (\<lambda>acc (i::nat). wrap16 (acc + 4)) 0 [0..<10]) 10) 0 1023
      (MinTemp * 10) (MaxTemp * 10) = 51
   \<and> TargetTemperature (getTargetTemperature (\<lambda>i. 4) power_on) = 5.5
   \<and> \<bar>5.0 - 51 / 10\<bar> < \<bar>TargetTemperature (getTargetTemperature (\<lambda>i. 4) power_on) - 51 / (10::real)\<bar>"
  by (simp add: getTargetTemperature_def map_long_def c_div_def wrap16_def MinTemp_def MaxTemp_def
      Let_def upt_rec)

text \<open>The setpoint for ten equal readings, for evaluating runs.\<close>

lemma getTargetTemperature_const:
  assumes "0 \<le> p" and "p \<le> 1023"
  shows "getTargetTemperature (\<lambda>i. p) s =
           s\<lparr> TargetTemperature := real_of_int (5 * ((50 + p * 300 div 1023 + 4) div 5)) / 10,
              io := io s @ replicate 10 (AnalogRead POTMETER_PIN) \<rparr>"
proof -
  have h: "\<forall>i<10. 0 \<le> (\<lambda>i::nat. p) i \<and> (\<lambda>i::nat. p) i \<le> 1023"
    using assms by simp
  have "TargetTemperature (getTargetTemperature (\<lambda>i. p) s)
          = real_of_int (5 * ((50 + p * 300 div 1023 + 4) div 5)) / 10"
    using getTargetTemperature_value(1)[OF h, of s] by (simp add: MinTemp_def MaxTemp_def)
  then show ?thesis
    by (simp add: getTargetTemperature_def Let_def)
qed

lemmas abort_defs = missionAbort_def changeHeaterStatus_def changePumpStatus_def

lemmas run_defs = loop_def safetyCheck_def Let_def pass_def controlHeater_def abort_defs
  updateLCD_def getInternalTemp_def float_to_int_def MaxRunTime_def MaxTemp_def
  getTemperature_explicit getTargetTemperature_const setup_sketch_power_on

subsection \<open>Safety supervisor\<close>





text \<open>
  Claim C3, as amended. \<open>MaxHeaterOnTime\<close> is set at start-up to
  \<open>MaxTemp * WaterVolume * 4.1868 * 1000000 / PowerHeater\<close>, which is 4884600 ms. A
  safety-check call raises the heater time-out exactly when the checks run, the heater
  was ON at the previous check and is ON now, the sensor comparison of the same call
  found a rise (so it did not halt first), and \<open>TimeNow - TimeHeaterOn\<close> exceeds
  \<open>MaxHeaterOnTime\<close>; in particular never before that time has passed.
\<close>

theorem heater_timeout:
  "(fault_of (safetyCheck inp s) = Some ''E2-heat time lim'')
     = (TimeLastSafetyCheck s + 120000 < millis_check inp
        \<and> PreviousHeaterStatus s = ON \<and> HeaterStatus s = ON
        \<and> TempLastSafetyCheck s < AverageTemp s
        \<and> MaxHeaterOnTime s < real (unat (millis_check inp - TimeHeaterOn s)))
   \<and> MaxHeaterOnTime (setup_sketch rd dht power_on)
       = real_of_int MaxTemp * real_of_int WaterVolume * 4.1868 * 10 ^ 6 / real_of_int PowerHeater
   \<and> MaxHeaterOnTime (setup_sketch rd dht power_on) = 4884600"
proof (intro conjI)
  show "(fault_of (safetyCheck inp s) = Some ''E2-heat time lim'')
     = (TimeLastSafetyCheck s + 120000 < millis_check inp
        \<and> PreviousHeaterStatus s = ON \<and> HeaterStatus s = ON
        \<and> TempLastSafetyCheck s < AverageTemp s
        \<and> MaxHeaterOnTime s < real (unat (millis_check inp - TimeHeaterOn s)))"
    by (cases "HeaterStatus s"; cases "PreviousHeaterStatus s")
      (simp_all add: safetyCheck_def Let_def missionAbort_def getInternalTemp_def not_less)
  show "MaxHeaterOnTime (setup_sketch rd dht power_on)
       = real_of_int MaxTemp * real_of_int WaterVolume * 4.1868 * 10 ^ 6 / real_of_int PowerHeater"
    by (simp add: setup_sketch_power_on MaxTemp_def WaterVolume_def PowerHeater_def)
  show "MaxHeaterOnTime (setup_sketch rd dht power_on) = 4884600"
    by (simp add: setup_sketch_power_on)
qed

theorem heater_timeout_witness:
  "fault_of (safetyCheck (pass 4900000 1023 31)
      ((setup_sketch (\<lambda>i. 30) 22 power_on)
         \<lparr> HeaterStatus := ON, PreviousHeaterStatus := ON, TimeHeaterOn := 10000,
           TimeLastSafetyCheck := 4779000, AverageTemp := 30.1 \<rparr>))
     = Some ''E2-heat time lim''"
proof -
  let ?s = "(setup_sketch (\<lambda>i. 30) 22 power_on)
         \<lparr> HeaterStatus := ON, PreviousHeaterStatus := ON, TimeHeaterOn := 10000,
           TimeLastSafetyCheck := 4779000, AverageTemp := 30.1 \<rparr>"
  have "TimeLastSafetyCheck ?s + 120000 < millis_check (pass 4900000 1023 31)
        \<and> PreviousHeaterStatus ?s = ON \<and> HeaterStatus ?s = ON
        \<and> TempLastSafetyCheck ?s < AverageTemp ?s
        \<and> MaxHeaterOnTime ?s < real (unat (millis_check (pass 4900000 1023 31) - TimeHeaterOn ?s))"
    by (simp add: setup_sketch_power_on pass_def)
  then show ?thesis
    using heater_timeout[of "pass 4900000 1023 31" ?s] by blast
qed

text \<open>
  Claim C3 as stated fails when the sensor comparison halts first: the heater has been
  ON for 4890000 ms, more than \<open>MaxHeaterOnTime\<close>, across the last interval, but the
  filtered temperature has not risen above the stored 30 degrees, and the fault raised
  is the sensor fault.
\<close>

theorem heater_timeout_counterexample:
  "MaxHeaterOnTime ((setup_sketch (\<lambda>i. 30) 22 power_on)
         \<lparr> HeaterStatus := ON, PreviousHeaterStatus := ON, TimeHeaterOn := 10000,
           TimeLastSafetyCheck := 4779000 \<rparr>)
     < real (unat (millis_check (pass 4900000 1023 30) - 10000))
   \<and> fault_of (safetyCheck (pass 4900000 1023 30)
      ((setup_sketch (\<lambda>i. 30) 22 power_on)
         \<lparr> HeaterStatus := ON, PreviousHeaterStatus := ON, TimeHeaterOn := 10000,
           TimeLastSafetyCheck := 4779000 \<rparr>))
     = Some ''E1-no T increase''"
  by (simp add: run_defs)

text \<open>
  Claim C10. A safety-check call in which the heater was not ON both at the previous
  check and now leaves \<open>TempLastSafetyCheck\<close> as it was; when its checks run and raise
  no fault, it changes the time stamp, the heater-status baseline, the enclosure
  temperature and the I/O log, and nothing else. Over a whole pass of \<open>loop\<close> the
  stored temperature changes only when the checks run with the heater ON at both
  checks and the filtered temperature above the stored one; start-up sets it to the
  filtered temperature. So after a check that only recorded the heater as ON, the next
  sensor comparison is against the value stored before that check.
\<close>

theorem TempLastSafetyCheck_frame:
  "(\<not> (PreviousHeaterStatus s = ON \<and> HeaterStatus s = ON) \<longrightarrow>
      TempLastSafetyCheck (state_of (safetyCheck inp s)) = TempLastSafetyCheck s)
   \<and> (\<not> (PreviousHeaterStatus s = ON \<and> HeaterStatus s = ON)
        \<and> TimeLastSafetyCheck s + 120000 < millis_check inp
        \<and> fault_of (safetyCheck inp s) = None \<longrightarrow>
      state_of (safetyCheck inp s)
        = s\<lparr> PreviousHeaterStatus := HeaterStatus s, TimeLastSafetyCheck := millis_reset inp,
             IntTemp := float_to_int (dht_temp inp), io := io s @ [DhtReadTemperature] \<rparr>)
   \<and> TempLastSafetyCheck (state_of (loop inp s))
       = (if TimeLastSafetyCheck s + 120000 < millis_check inp
             \<and> PreviousHeaterStatus s = ON \<and> HeaterStatus s = ON
             \<and> TempLastSafetyCheck s < AverageTemp s
          then AverageTemp s else TempLastSafetyCheck s)
   \<and> TempLastSafetyCheck (setup_sketch rd dht power_on) = AverageTemp (setup_sketch rd dht power_on)
   \<and> (PreviousHeaterStatus s = OFF \<and> HeaterStatus s = ON
        \<and> TimeLastSafetyCheck s + 120000 < millis_check inp
        \<and> fault_of (safetyCheck inp s) = None
        \<and> millis_reset inp + 120000 < millis_check inp' \<longrightarrow>
      (fault_of (safetyCheck inp' ((state_of (safetyCheck inp s))\<lparr> AverageTemp := a \<rparr>))
         = Some ''E1-no T increase'')
        = (a \<le> TempLastSafetyCheck s))"
proof (intro conjI impI)
  assume "\<not> (PreviousHeaterStatus s = ON \<and> HeaterStatus s = ON)"
  then show "TempLastSafetyCheck (state_of (safetyCheck inp s)) = TempLastSafetyCheck s"
    by (auto simp add: safetyCheck_def Let_def abort_defs getInternalTemp_def)
next
  assume "\<not> (PreviousHeaterStatus s = ON \<and> HeaterStatus s = ON)
        \<and> TimeLastSafetyCheck s + 120000 < millis_check inp
        \<and> fault_of (safetyCheck inp s) = None"
  then show "state_of (safetyCheck inp s)
        = s\<lparr> PreviousHeaterStatus := HeaterStatus s, TimeLastSafetyCheck := millis_reset inp,
             IntTemp := float_to_int (dht_temp inp), io := io s @ [DhtReadTemperature] \<rparr>"
    by (cases "HeaterStatus s")
      (auto simp add: safetyCheck_def Let_def abort_defs getInternalTemp_def split: if_splits)
next
  show "TempLastSafetyCheck (state_of (loop inp s))
       = (if TimeLastSafetyCheck s + 120000 < millis_check inp
             \<and> PreviousHeaterStatus s = ON \<and> HeaterStatus s = ON
             \<and> TempLastSafetyCheck s < AverageTemp s
          then AverageTemp s else TempLastSafetyCheck s)"
    by (cases "HeaterStatus s"; cases "PreviousHeaterStatus s")
      (auto simp add: loop_def safetyCheck_def Let_def abort_defs getInternalTemp_def
        getTargetTemperature_def getTemperature_def controlHeater_def updateLCD_def)
next
  show "TempLastSafetyCheck (setup_sketch rd dht power_on) = AverageTemp (setup_sketch rd dht power_on)"
    by (simp add: setup_sketch_power_on)
next
  assume "PreviousHeaterStatus s = OFF \<and> HeaterStatus s = ON
        \<and> TimeLastSafetyCheck s + 120000 < millis_check inp
        \<and> fault_of (safetyCheck inp s) = None
        \<and> millis_reset inp + 120000 < millis_check inp'"
  then show "(fault_of (safetyCheck inp' ((state_of (safetyCheck inp s))\<lparr> AverageTemp := a \<rparr>))
         = Some ''E1-no T increase'')
        = (a \<le> TempLastSafetyCheck s)"
    by (auto simp add: safetyCheck_def Let_def abort_defs getInternalTemp_def split: if_splits)
qed

theorem TempLastSafetyCheck_frame_witness:
  "TempLastSafetyCheck (state_of (safetyCheck (pass 121000 1023 21)
      ((setup_sketch (\<lambda>i. 20) 22 power_on)\<lparr> HeaterStatus := ON, TimeHeaterOn := 10000 \<rparr>))) = 20
   \<and> fault_of (safetyCheck (pass 242000 1023 21)
        ((state_of (safetyCheck (pass 121000 1023 21)
           ((setup_sketch (\<lambda>i. 20) 22 power_on)\<lparr> HeaterStatus := ON, TimeHeaterOn := 10000 \<rparr>)))
         \<lparr> AverageTemp := 19 \<rparr>))
       = Some ''E1-no T increase''"
proof -
  let ?s = "(setup_sketch (\<lambda>i. 20) 22 power_on)\<lparr> HeaterStatus := ON, TimeHeaterOn := 10000 \<rparr>"
  let ?i = "pass 121000 1023 21"
  let ?j = "pass 242000 1023 21"
  have a: "\<not> (PreviousHeaterStatus ?s = ON \<and> HeaterStatus ?s = ON)"
    by (simp add: setup_sketch_power_on)
  have b: "PreviousHeaterStatus ?s = OFF \<and> HeaterStatus ?s = ON
        \<and> TimeLastSafetyCheck ?s + 120000 < millis_check ?i
        \<and> fault_of (safetyCheck ?i ?s) = None
        \<and> millis_reset ?i + 120000 < millis_check ?j"
    by (simp add: run_defs)
  have c: "TempLastSafetyCheck ?s = 20" "19 \<le> TempLastSafetyCheck ?s"
    by (simp_all add: setup_sketch_power_on)
  note frame = TempLastSafetyCheck_frame[of ?s ?i "\<lambda>i. 20" 22 ?j 19]
  from frame a have "TempLastSafetyCheck (state_of (safetyCheck ?i ?s)) = TempLastSafetyCheck ?s"
    by blast
  then have d: "TempLastSafetyCheck (state_of (safetyCheck ?i ?s)) = 20"
    by (simp only: c(1))
  from frame b c(2)
  have e: "fault_of (safetyCheck ?j ((state_of (safetyCheck ?i ?s))\<lparr> AverageTemp := 19 \<rparr>))
             = Some ''E1-no T increase''"
    by blast
  from d e show ?thesis by (rule conjI)
qed

subsection \<open>Shutdown\<close>

lemma pin_level_append:
  "pin_level p (xs @ ys) = (case pin_level p ys of Some l \<Rightarrow> Some l | None \<Rightarrow> pin_level p xs)"
  by (induction xs) (auto split: option.splits)

lemma pin_level_alerts:
  "pin_level p (concat (replicate n [Tone a b c, Delay d])) = None"
  by (induction n) simp_all

lemma run_steps_halted:
  "run_steps inps (Halted m h)
     = Halted m (h\<lparr> io := io h @ concat (replicate (length inps) [Tone 7 2000 1000, Delay 15000]) \<rparr>)"
proof (induction inps arbitrary: h)
  case Nil
  then show ?case by simp
next
  case (Cons inp inps)
  show ?case by (simp add: Cons.IH alert_def)
qed

lemma alert_forever_never_returns: "alert_forever s = None"
proof (cases "alert_forever s")
  case None
  then show ?thesis .
next
  case (Some y)
  have False
    by (rule alert_forever.raw_induct[where P = "\<lambda>x y. False", OF _ Some]) blast
  then show ?thesis ..
qed

lemma and_then_missionAbort: "and_then (missionAbort m t s) f = missionAbort m t s"
  by (simp add: missionAbort_def Let_def)

lemma fault_of_missionAbort: "fault_of (missionAbort m t s) = Some m"
  by (simp add: missionAbort_def Let_def)

lemma missionAbort_state:
  "HeaterStatus (state_of (missionAbort m t s)) = OFF"
  "PumpStatus (state_of (missionAbort m t s)) = OFF"
  "io (state_of (missionAbort m t s)) =
     io s @ [DigitalWrite HEATER_PIN OFF, DigitalWrite PUMP_PIN OFF, LcdClear,
             LcdSetCursor 0 0, LcdPrint ''System halted'', LcdSetCursor 0 1, LcdPrint m]"
  by (simp_all add: abort_defs Let_def)

lemma halted_by_missionAbort: "halted_by m (state_of (missionAbort m t s))"
  by (simp add: halted_by_def missionAbort_state pin_level_append HEATER_PIN_def PUMP_PIN_def)

lemma safetyCheck_faults:
  "fault_of (safetyCheck inp s) \<in> {None, Some ''E1-no T increase'', Some ''E2-heat time lim'',
      Some ''E3-temp too high'', Some ''E4-timelim excee'', Some ''E5-int temp >40C''}"
  by (simp add: safetyCheck_def Let_def and_then_missionAbort fault_of_missionAbort)

lemma safetyCheck_halted:
  "fault_of (safetyCheck inp s) = Some m \<Longrightarrow> halted_by m (state_of (safetyCheck inp s))"
  by (simp add: safetyCheck_def Let_def and_then_missionAbort fault_of_missionAbort
      halted_by_missionAbort split: if_splits)

lemma loop_halted:
  "loop inp s = Halted m h \<Longrightarrow>
     safetyCheck inp (s\<lparr> RunTime := millis_loop inp div 1000 div 60 \<rparr>) = Halted m h"
  by (cases "safetyCheck inp (s\<lparr> RunTime := millis_loop inp div 1000 div 60 \<rparr>)")
    (simp_all add: loop_def Let_def)

text \<open>
  Claim C1. When a pass of \<open>loop\<close> raises a fault, it is one of the five faults of
  the safety check, and the shutdown procedure has set the heater and pump variables to
  OFF, written OFF to both relays, cleared the display and printed
  \<open>System halted\<close> and the fault's code as its last seven peripheral calls. The alert
  loop entered next never returns. From then
  on every step is one turn of the alert loop (tone, then delay): the sketch stays
  halted with the same code, only alert calls are added to the I/O log, and the last
  level written to the heater relay and to the pump relay stays OFF.
\<close>

theorem missionAbort_terminal:
  assumes "loop inp s = Halted m h"
  shows "m \<in> {''E1-no T increase'', ''E2-heat time lim'', ''E3-temp too high'',
               ''E4-timelim excee'', ''E5-int temp >40C''}
       \<and> HeaterStatus h = OFF \<and> PumpStatus h = OFF
       \<and> drop (length (io h) - 7) (io h)
           = [DigitalWrite HEATER_PIN OFF, DigitalWrite PUMP_PIN OFF, LcdClear,
              LcdSetCursor 0 0, LcdPrint ''System halted'', LcdSetCursor 0 1, LcdPrint m]
       \<and> alert_forever h = None
       \<and> (\<forall>inps. run_steps inps (Halted m h)
             = Halted m (h\<lparr> io := io h @ concat (replicate (length inps)
                                                      [Tone 7 2000 1000, Delay 15000]) \<rparr>))
       \<and> (\<forall>inps. HeaterStatus (state_of (run_steps inps (Halted m h))) = OFF
             \<and> PumpStatus (state_of (run_steps inps (Halted m h))) = OFF
             \<and> pin_level HEATER_PIN (io (state_of (run_steps inps (Halted m h)))) = Some OFF
             \<and> pin_level PUMP_PIN (io (state_of (run_steps inps (Halted m h)))) = Some OFF)"
proof -
  from assms have sc: "safetyCheck inp (s\<lparr> RunTime := millis_loop inp div 1000 div 60 \<rparr>) = Halted m h"
    by (rule loop_halted)
  have m: "m \<in> {''E1-no T increase'', ''E2-heat time lim'', ''E3-temp too high'',
               ''E4-timelim excee'', ''E5-int temp >40C''}"
    using safetyCheck_faults[of inp "s\<lparr> RunTime := millis_loop inp div 1000 div 60 \<rparr>"]
    unfolding sc by simp
  have "halted_by m (state_of (safetyCheck inp (s\<lparr> RunTime := millis_loop inp div 1000 div 60 \<rparr>)))"
    by (rule safetyCheck_halted) (simp add: sc)
  then have hb: "halted_by m h"
    by (simp add: sc)
  then have st: "HeaterStatus h = OFF" "PumpStatus h = OFF"
    and last7: "drop (length (io h) - 7) (io h)
           = [DigitalWrite HEATER_PIN OFF, DigitalWrite PUMP_PIN OFF, LcdClear,
              LcdSetCursor 0 0, LcdPrint ''System halted'', LcdSetCursor 0 1, LcdPrint m]"
    and pins: "pin_level HEATER_PIN (io h) = Some OFF" "pin_level PUMP_PIN (io h) = Some OFF"
    by (simp_all add: halted_by_def)
  have after: "HeaterStatus (state_of (run_steps inps (Halted m h))) = OFF
             \<and> PumpStatus (state_of (run_steps inps (Halted m h))) = OFF
             \<and> pin_level HEATER_PIN (io (state_of (run_steps inps (Halted m h)))) = Some OFF
             \<and> pin_level PUMP_PIN (io (state_of (run_steps inps (Halted m h)))) = Some OFF" for inps
    by (simp add: run_steps_halted st pin_level_append pin_level_alerts pins)
  show ?thesis
    using m st last7 alert_forever_never_returns run_steps_halted after by blast
qed

theorem missionAbort_terminal_witness:
  "fault_of (loop (pass 121000 1023 50) (setup_sketch (\<lambda>i. 50) 22 power_on))
     = Some ''E3-temp too high''
   \<and> fault_of (run_steps [pass 136000 1023 50, pass 151000 1023 50]
        (loop (pass 121000 1023 50) (setup_sketch (\<lambda>i. 50) 22 power_on)))
     = Some ''E3-temp too high''
   \<and> pin_level HEATER_PIN (io (state_of (run_steps [pass 136000 1023 50, pass 151000 1023 50]
        (loop (pass 121000 1023 50) (setup_sketch (\<lambda>i. 50) 22 power_on))))) = Some OFF
   \<and> pin_level PUMP_PIN (io (state_of (run_steps [pass 136000 1023 50, pass 151000 1023 50]
        (loop (pass 121000 1023 50) (setup_sketch (\<lambda>i. 50) 22 power_on))))) = Some OFF"
proof -
  let ?r = "loop (pass 121000 1023 50) (setup_sketch (\<lambda>i. 50) 22 power_on)"
  have f: "fault_of ?r = Some ''E3-temp too high''"
    by (simp add: run_defs)
  then obtain h where L: "?r = Halted ''E3-temp too high'' h"
    by (cases ?r) simp_all
  note T = missionAbort_terminal[OF L]
  from T have R: "run_steps [pass 136000 1023 50, pass 151000 1023 50] (Halted ''E3-temp too high'' h)
      = Halted ''E3-temp too high'' (h\<lparr> io := io h @ concat (replicate
          (length [pass 136000 1023 50, pass 151000 1023 50]) [Tone 7 2000 1000, Delay 15000]) \<rparr>)"
    by blast
  from T have P: "pin_level HEATER_PIN (io (state_of (run_steps [pass 136000 1023 50, pass 151000 1023 50]
        (Halted ''E3-temp too high'' h)))) = Some OFF
     \<and> pin_level PUMP_PIN (io (state_of (run_steps [pass 136000 1023 50, pass 151000 1023 50]
        (Halted ''E3-temp too high'' h)))) = Some OFF"
    by blast
  have F: "fault_of (run_steps [pass 136000 1023 50, pass 151000 1023 50] (Halted ''E3-temp too high'' h))
      = Some ''E3-temp too high''"
    unfolding R by simp
  show ?thesis
    unfolding L using F P by simp
qed

subsection \<open>The control loop\<close>

lemma safetyCheck_no_fault:
  assumes "fault_of (safetyCheck inp s) = None"
  shows "HeaterStatus (state_of (safetyCheck inp s)) = HeaterStatus s"
    and "PumpStatus (state_of (safetyCheck inp s)) = PumpStatus s"
    and "RunTime (state_of (safetyCheck inp s)) = RunTime s"
    and "TargetTemperature (state_of (safetyCheck inp s)) = TargetTemperature s"
    and "Measurements (state_of (safetyCheck inp s)) = Measurements s"
    and "SumMeasurements (state_of (safetyCheck inp s)) = SumMeasurements s"
    and "AverageTemp (state_of (safetyCheck inp s)) = AverageTemp s"
    and "io (state_of (safetyCheck inp s))
           = io s @ (if TimeLastSafetyCheck s + 120000 < millis_check inp
                     then [DhtReadTemperature] else [])"
  using assms
  by (auto simp add: safetyCheck_def Let_def and_then_missionAbort fault_of_missionAbort
      getInternalTemp_def split: if_splits)

lemma loop_running:
  assumes "safetyCheck inp (s\<lparr> RunTime := millis_loop inp div 1000 div 60 \<rparr>) = Running s2"
  shows "loop inp s = Running (updateLCD (controlHeater (millis_switch inp)
           (getTemperature (liquid_temp inp) (getTargetTemperature (analog inp) s2))))"
  by (simp add: loop_def Let_def assms)

lemma getTargetTemperature_fields:
  "io (getTargetTemperature rd s) = io s @ replicate 10 (AnalogRead POTMETER_PIN)"
  "HeaterStatus (getTargetTemperature rd s) = HeaterStatus s"
  "PumpStatus (getTargetTemperature rd s) = PumpStatus s"
  "RunTime (getTargetTemperature rd s) = RunTime s"
  "Measurements (getTargetTemperature rd s) = Measurements s"
  "SumMeasurements (getTargetTemperature rd s) = SumMeasurements s"
  by (simp_all add: getTargetTemperature_def Let_def)

lemma getTargetTemperature_target:
  "TargetTemperature (getTargetTemperature rd s) = TargetTemperature (getTargetTemperature rd t)"
  by (simp add: getTargetTemperature_def Let_def)

lemma getTemperature_fields:
  "io (getTemperature r s) = io s @ [RequestTemperatures, GetTempCByIndex 0]"
  "HeaterStatus (getTemperature r s) = HeaterStatus s"
  "PumpStatus (getTemperature r s) = PumpStatus s"
  "RunTime (getTemperature r s) = RunTime s"
  "TargetTemperature (getTemperature r s) = TargetTemperature s"
  by (simp_all add: getTemperature_def Let_def)

lemma getTemperature_average:
  "Measurements s = Measurements t \<Longrightarrow> SumMeasurements s = SumMeasurements t \<Longrightarrow>
     AverageTemp (getTemperature r s) = AverageTemp (getTemperature r t)"
  by (simp add: getTemperature_def Let_def)

lemma controlHeater_fields:
  "io (controlHeater now s)
     = io s @ (if HeaterStatus (controlHeater now s) = HeaterStatus s then []
               else [DigitalWrite HEATER_PIN (HeaterStatus (controlHeater now s))])"
  "PumpStatus (controlHeater now s) = PumpStatus s"
  "RunTime (controlHeater now s) = RunTime s"
  "TargetTemperature (controlHeater now s) = TargetTemperature s"
  "AverageTemp (controlHeater now s) = AverageTemp s"
  by (cases "HeaterStatus s"; simp add: controlHeater_def changeHeaterStatus_def)+

lemma controlHeater_status:
  "HeaterStatus s = HeaterStatus t \<Longrightarrow> AverageTemp s = AverageTemp t \<Longrightarrow>
   TargetTemperature s = TargetTemperature t \<Longrightarrow>
     HeaterStatus (controlHeater now s) = HeaterStatus (controlHeater now t)"
  by (simp add: controlHeater_def changeHeaterStatus_def)

lemma updateLCD_fields:
  "io (updateLCD s) = io s @
        [LcdSetCursor 3 0, LcdPrintFloat (TargetTemperature s) 1,
         LcdSetCursor 3 1, LcdPrintFloat (AverageTemp s) 1,
         LcdSetCursor 12 0,
         (if HeaterStatus s = ON then LcdWrite 1 else LcdPrintChar CHR '' ''),
         (if PumpStatus s = ON then LcdWrite 0 else LcdPrintChar CHR '' ''),
         LcdSetCursor 9 1, LcdPrintNum (RunTime s), LcdPrint ''min'']"
  "HeaterStatus (updateLCD s) = HeaterStatus s"
  "TargetTemperature (updateLCD s) = TargetTemperature s"
  "AverageTemp (updateLCD s) = AverageTemp s"
  by (simp_all add: updateLCD_def)

text \<open>The window invariant holds after start-up and every pass of \<open>loop\<close> keeps it, so it
  holds whenever the filter takes a sample.\<close>

lemma safetyCheck_window:
  "Measurements (state_of (safetyCheck inp s)) = Measurements s"
  "SumMeasurements (state_of (safetyCheck inp s)) = SumMeasurements s"
  by (auto simp add: safetyCheck_def Let_def abort_defs getInternalTemp_def)

lemma window_ok_invariant:
  "window_ok (setup_sketch rd dht power_on)"
  "window_ok s \<Longrightarrow> window_ok (state_of (loop inp s))"
proof -
  show "window_ok (setup_sketch rd dht power_on)"
    by (simp add: setup_sketch_power_on window_ok_def NumberOfMeasurements_def)
  assume ok: "window_ok s"
  let ?s1 = "s\<lparr> RunTime := millis_loop inp div 1000 div 60 \<rparr>"
  have ok1: "window_ok (state_of (safetyCheck inp ?s1))"
    using ok by (simp add: window_ok_def safetyCheck_window)
  show "window_ok (state_of (loop inp s))"
  proof (cases "safetyCheck inp ?s1")
    case (Halted m h)
    then show ?thesis using ok1 by (simp add: loop_def Let_def)
  next
    case (Running s2)
    then have "window_ok (getTargetTemperature (analog inp) s2)"
      using ok1 by (simp add: window_ok_def getTargetTemperature_fields)
    then have "window_ok (getTemperature (liquid_temp inp) (getTargetTemperature (analog inp) s2))"
      by (rule getTemperature_window_ok)
    then show ?thesis
      unfolding loop_running[OF Running]
      by (simp add: window_ok_def updateLCD_def controlHeater_def changeHeaterStatus_def)
  qed
qed

lemma loop_fault:
  "fault_of (loop inp s)
     = fault_of (safetyCheck inp (s\<lparr> RunTime := millis_loop inp div 1000 div 60 \<rparr>))"
  "fault_of (loop inp s) \<noteq> None \<Longrightarrow>
     loop inp s = safetyCheck inp (s\<lparr> RunTime := millis_loop inp div 1000 div 60 \<rparr>)"
  by (cases "safetyCheck inp (s\<lparr> RunTime := millis_loop inp div 1000 div 60 \<rparr>)";
      simp add: loop_def Let_def)+

lemma loop_no_fault:
  assumes "fault_of (loop inp s) = None"
  defines "s' \<equiv> state_of (loop inp s)"
  shows "io s' = io s
             @ (if TimeLastSafetyCheck s + 120000 < millis_check inp
                then [DhtReadTemperature] else [])
             @ replicate 10 (AnalogRead POTMETER_PIN)
             @ [RequestTemperatures, GetTempCByIndex 0]
             @ (if HeaterStatus s' = HeaterStatus s then []
                else [DigitalWrite HEATER_PIN (HeaterStatus s')])
             @ [LcdSetCursor 3 0, LcdPrintFloat (TargetTemperature s') 1,
                LcdSetCursor 3 1, LcdPrintFloat (AverageTemp s') 1,
                LcdSetCursor 12 0,
                (if HeaterStatus s' = ON then LcdWrite 1 else LcdPrintChar CHR '' ''),
                (if PumpStatus s = ON then LcdWrite 0 else LcdPrintChar CHR '' ''),
                LcdSetCursor 9 1, LcdPrintNum (millis_loop inp div 1000 div 60),
                LcdPrint ''min'']"
    and "TargetTemperature s' = TargetTemperature (getTargetTemperature (analog inp) s)"
    and "AverageTemp s' = AverageTemp (getTemperature (liquid_temp inp) s)"
    and "HeaterStatus s' = HeaterStatus (controlHeater (millis_switch inp)
              (s\<lparr> TargetTemperature := TargetTemperature s', AverageTemp := AverageTemp s' \<rparr>))"
    and "PumpStatus s' = PumpStatus s"
proof -
  let ?s1 = "s\<lparr> RunTime := millis_loop inp div 1000 div 60 \<rparr>"
  from assms(1) have nf: "fault_of (safetyCheck inp ?s1) = None"
    by (simp add: loop_fault(1))
  then obtain s2 where Running: "safetyCheck inp ?s1 = Running s2"
    by (cases "safetyCheck inp ?s1") simp_all
  note keep = safetyCheck_no_fault[OF nf, unfolded Running, simplified]
  let ?s3 = "getTargetTemperature (analog inp) s2"
  let ?s4 = "getTemperature (liquid_temp inp) ?s3"
  let ?s5 = "controlHeater (millis_switch inp) ?s4"
  have L: "loop inp s = Running (updateLCD ?s5)"
    by (rule loop_running[OF Running])
  have tt: "TargetTemperature ?s5 = TargetTemperature (getTargetTemperature (analog inp) s)"
    by (simp only: controlHeater_fields getTemperature_fields getTargetTemperature_target[of _ s2 s])
  have av: "AverageTemp ?s5 = AverageTemp (getTemperature (liquid_temp inp) s)"
    by (simp only: controlHeater_fields)
      (rule getTemperature_average; simp add: getTargetTemperature_fields keep)
  have h4: "HeaterStatus ?s4 = HeaterStatus s"
    by (simp add: getTemperature_fields getTargetTemperature_fields keep)
  have hs: "HeaterStatus ?s5 = HeaterStatus (controlHeater (millis_switch inp)
            (s\<lparr> TargetTemperature := TargetTemperature ?s5, AverageTemp := AverageTemp ?s5 \<rparr>))"
    by (rule controlHeater_status) (simp_all add: h4 controlHeater_fields)
  have io5: "io (updateLCD ?s5) = io s
           @ (if TimeLastSafetyCheck s + 120000 < millis_check inp
              then [DhtReadTemperature] else [])
           @ replicate 10 (AnalogRead POTMETER_PIN)
           @ [RequestTemperatures, GetTempCByIndex 0]
           @ (if HeaterStatus ?s5 = HeaterStatus s then []
              else [DigitalWrite HEATER_PIN (HeaterStatus ?s5)])
           @ [LcdSetCursor 3 0, LcdPrintFloat (TargetTemperature ?s5) 1,
              LcdSetCursor 3 1, LcdPrintFloat (AverageTemp ?s5) 1,
              LcdSetCursor 12 0,
              (if HeaterStatus ?s5 = ON then LcdWrite 1 else LcdPrintChar CHR '' ''),
              (if PumpStatus s = ON then LcdWrite 0 else LcdPrintChar CHR '' ''),
              LcdSetCursor 9 1, LcdPrintNum (millis_loop inp div 1000 div 60),
              LcdPrint ''min'']"
    unfolding updateLCD_fields controlHeater_fields h4 getTemperature_fields
      getTargetTemperature_fields keep
    by simp
  have s': "s' = updateLCD ?s5" by (simp add: s'_def L)
  show "io s' = io s
             @ (if TimeLastSafetyCheck s + 120000 < millis_check inp
                then [DhtReadTemperature] else [])
             @ replicate 10 (AnalogRead POTMETER_PIN)
             @ [RequestTemperatures, GetTempCByIndex 0]
             @ (if HeaterStatus s' = HeaterStatus s then []
                else [DigitalWrite HEATER_PIN (HeaterStatus s')])
             @ [LcdSetCursor 3 0, LcdPrintFloat (TargetTemperature s') 1,
                LcdSetCursor 3 1, LcdPrintFloat (AverageTemp s') 1,
                LcdSetCursor 12 0,
                (if HeaterStatus s' = ON then LcdWrite 1 else LcdPrintChar CHR '' ''),
                (if PumpStatus s = ON then LcdWrite 0 else LcdPrintChar CHR '' ''),
                LcdSetCursor 9 1, LcdPrintNum (millis_loop inp div 1000 div 60),
                LcdPrint ''min'']"
    unfolding s' updateLCD_fields(2-4) by (rule io5)
  show "TargetTemperature s' = TargetTemperature (getTargetTemperature (analog inp) s)"
    unfolding s' updateLCD_fields(2-4) by (rule tt)
  show "AverageTemp s' = AverageTemp (getTemperature (liquid_temp inp) s)"
    unfolding s' updateLCD_fields(2-4) by (rule av)
  show "HeaterStatus s' = HeaterStatus (controlHeater (millis_switch inp)
              (s\<lparr> TargetTemperature := TargetTemperature s', AverageTemp := AverageTemp s' \<rparr>))"
    unfolding s' updateLCD_fields(2-4) by (rule hs)
  show "PumpStatus s' = PumpStatus s"
    unfolding s' by (simp add: updateLCD_def controlHeater_fields getTemperature_fields
        getTargetTemperature_fields keep)
qed

text \<open>
  Claim C7, as amended. A pass of the control loop first updates the run time and runs
  the time-gated safety check, on the filtered temperature and heater state that the
  previous pass left. If the check raises a fault the pass ends in the shutdown
  procedure. Otherwise the pass goes on, in this order: the ten setpoint readings, the
  thermometer reading, heater control (one relay write if the heater changes state),
  and the status display, which shows the setpoint, the filtered temperature and the
  heater state this pass has just computed.
\<close>

theorem loop_order:
  "fault_of (loop inp s)
     = fault_of (safetyCheck inp (s\<lparr> RunTime := millis_loop inp div 1000 div 60 \<rparr>))
   \<and> (fault_of (loop inp s) \<noteq> None \<longrightarrow>
        loop inp s = safetyCheck inp (s\<lparr> RunTime := millis_loop inp div 1000 div 60 \<rparr>))
   \<and> (fault_of (loop inp s) = None \<longrightarrow>
        (let s' = state_of (loop inp s) in
         io s' = io s
             @ (if TimeLastSafetyCheck s + 120000 < millis_check inp
                then [DhtReadTemperature] else [])
             @ replicate 10 (AnalogRead POTMETER_PIN)
             @ [RequestTemperatures, GetTempCByIndex 0]
             @ (if HeaterStatus s' = HeaterStatus s then []
                else [DigitalWrite HEATER_PIN (HeaterStatus s')])
             @ [LcdSetCursor 3 0, LcdPrintFloat (TargetTemperature s') 1,
                LcdSetCursor 3 1, LcdPrintFloat (AverageTemp s') 1,
                LcdSetCursor 12 0,
                (if HeaterStatus s' = ON then LcdWrite 1 else LcdPrintChar CHR '' ''),
                (if PumpStatus s = ON then LcdWrite 0 else LcdPrintChar CHR '' ''),
                LcdSetCursor 9 1, LcdPrintNum (millis_loop inp div 1000 div 60),
                LcdPrint ''min'']
         \<and> TargetTemperature s' = TargetTemperature (getTargetTemperature (analog inp) s)
         \<and> AverageTemp s' = AverageTemp (getTemperature (liquid_temp inp) s)
         \<and> HeaterStatus s' = HeaterStatus (controlHeater (millis_switch inp)
              (s\<lparr> TargetTemperature := TargetTemperature s', AverageTemp := AverageTemp s' \<rparr>))))"
  using loop_fault[of inp s] loop_no_fault(1-4)[of inp s]
  unfolding Let_def by blast

theorem loop_order_witness:
  "fault_of (loop (pass 121000 1023 21) (setup_sketch (\<lambda>i. 20) 22 power_on)) = None
   \<and> take 13 (drop (length (io (setup_sketch (\<lambda>i. 20) 22 power_on)))
        (io (state_of (loop (pass 121000 1023 21) (setup_sketch (\<lambda>i. 20) 22 power_on)))))
      = DhtReadTemperature # replicate 10 (AnalogRead POTMETER_PIN)
          @ [RequestTemperatures, GetTempCByIndex 0]"
proof -
  let ?s = "setup_sketch (\<lambda>i. 20) 22 power_on"
  let ?i = "pass 121000 1023 21"
  have f: "fault_of (loop ?i ?s) = None"
    by (simp add: run_defs)
  have g: "TimeLastSafetyCheck ?s + 120000 < millis_check ?i"
    by (simp add: setup_sketch_power_on pass_def)
  from loop_order[of ?i ?s] f
  have "\<exists>rest. io (state_of (loop ?i ?s)) = io ?s
             @ (if TimeLastSafetyCheck ?s + 120000 < millis_check ?i
                then [DhtReadTemperature] else [])
             @ replicate 10 (AnalogRead POTMETER_PIN)
             @ [RequestTemperatures, GetTempCByIndex 0] @ rest"
    unfolding Let_def by blast
  then obtain rest where "io (state_of (loop ?i ?s)) = io ?s
             @ [DhtReadTemperature] @ replicate 10 (AnalogRead POTMETER_PIN)
             @ [RequestTemperatures, GetTempCByIndex 0] @ rest"
    using g by auto
  then have "take 13 (drop (length (io ?s)) (io (state_of (loop ?i ?s))))
      = DhtReadTemperature # replicate 10 (AnalogRead POTMETER_PIN)
          @ [RequestTemperatures, GetTempCByIndex 0]"
    by simp
  with f show ?thesis by (rule conjI)
qed

text \<open>
  Claim C7 as stated fails: in the order of the specification the safety check would see
  the temperature read in the same pass. Start at 34 degrees and read 45 in the pass at
  121 s: the filtered temperature becomes 35.1. The sketch checks before it reads and
  raises no fault in this pass; the specification's order raises the over-temperature
  fault.
\<close>

theorem loop_order_counterexample:
  "fault_of (loop (pass 121000 1023 45) (setup_sketch (\<lambda>i. 34) 22 power_on)) = None
   \<and> AverageTemp (state_of (loop (pass 121000 1023 45) (setup_sketch (\<lambda>i. 34) 22 power_on)))
       = 35.1
   \<and> fault_of (loop_spec_order (pass 121000 1023 45) (setup_sketch (\<lambda>i. 34) 22 power_on))
       = Some ''E3-temp too high''"
  by (simp add: run_defs loop_spec_order_def)

subsection \<open>Pump\<close>




subsection \<open>Sensor fault across two checkpoints\<close>

text \<open>
  Claim C2, as the sketch has it. Start at 20 degrees with the setpoint at 35. The heater
  goes ON in the pass at 10 s and stays ON. The filtered temperature is 20.1 when the
  first checkpoint runs (pass at 121 s) and still 20.1 when the second one runs (pass
  at 242 s). The first checkpoint only records the heater as ON and leaves the stored
  temperature at the start-up value 20, so the second checkpoint compares 20.1 with 20,
  raises no fault and stores 20.1.
\<close>

theorem sensor_fault_stale_checkpoint:
  "let r2 = run_steps [pass 10000 1023 20, pass 60000 1023 21]
              (Running (setup_sketch (\<lambda>i. 20) 22 power_on));
       r3 = step (pass 121000 1023 20) r2;
       r4 = step (pass 242000 1023 20) r3
   in fault_of r2 = None \<and> HeaterStatus (state_of r2) = ON \<and> TimeHeaterOn (state_of r2) = 10000
      \<and> AverageTemp (state_of r2) = 20.1 \<and> TimeLastSafetyCheck (state_of r2) = 0
      \<and> TempLastSafetyCheck (state_of r2) = 20
      \<and> fault_of r3 = None \<and> HeaterStatus (state_of r3) = ON \<and> TimeHeaterOn (state_of r3) = 10000
      \<and> AverageTemp (state_of r3) = 20.1 \<and> TimeLastSafetyCheck (state_of r3) = 121000
      \<and> PreviousHeaterStatus (state_of r3) = ON \<and> TempLastSafetyCheck (state_of r3) = 20
      \<and> fault_of r4 = None \<and> TimeLastSafetyCheck (state_of r4) = 242000
      \<and> TempLastSafetyCheck (state_of r4) = 20.1"
  by (simp add: run_defs)

end
